theory Spec2Isabelle
  imports Complex_Main "HOL-Library.AList" "HOL-Library.Sublist"
begin

section \<open>Python values\<close>

text \<open>
  The governor's rule file is read with \<^verbatim>\<open>yaml.safe_load\<close>, so the engine walks
  untyped data. A loaded value is a scalar, a list or a mapping; mapping keys are
  strings (a key of another type never equals the \<^verbatim>\<open>str\<close> the engine looks up).
  Python floats are modelled as reals.
\<close>

datatype py_error = KeyError | TypeError | AttributeError | ValueError | GovernorViolation string

datatype yaml =
    YNull
  | YBool bool
  | YNum real
  | YStr string
  | YList "yaml list"
  | YMap "(string \<times> yaml) list"

text \<open>\<^verbatim>\<open>d.get(k, default)\<close> on a value known to be a dict.\<close>

definition dict_get :: "(string \<times> 'v) list \<Rightarrow> string \<Rightarrow> 'v \<Rightarrow> 'v" where
  "dict_get d k dflt = (case map_of d k of None \<Rightarrow> dflt | Some v \<Rightarrow> v)"

text \<open>\<^verbatim>\<open>node[p]\<close> with a string \<open>p\<close>: only a mapping can be subscripted by a string.\<close>

fun subscript :: "yaml \<Rightarrow> string \<Rightarrow> py_error + yaml" where
  "subscript (YMap m) p = (case map_of m p of None \<Rightarrow> Inl KeyError | Some v \<Rightarrow> Inr v)"
| "subscript _ p = Inl TypeError"

text \<open>\<^verbatim>\<open>x.get(k, default)\<close> on an arbitrary loaded value: only a dict has \<^verbatim>\<open>get\<close>.\<close>

fun py_get :: "yaml \<Rightarrow> string \<Rightarrow> yaml \<Rightarrow> py_error + yaml" where
  "py_get (YMap m) k dflt = Inr (dict_get m k dflt)"
| "py_get _ k dflt = Inl AttributeError"

text \<open>Truth value of a loaded value, as \<^verbatim>\<open>if not bounds\<close> tests it.\<close>

fun truthy :: "yaml \<Rightarrow> bool" where
  "truthy YNull = False"
| "truthy (YBool b) = b"
| "truthy (YNum r) = (r \<noteq> 0)"
| "truthy (YStr s) = (s \<noteq> [])"
| "truthy (YList xs) = (xs \<noteq> [])"
| "truthy (YMap m) = (m \<noteq> [])"

text \<open>Iteration: a list gives its elements, a dict its keys, a string its characters.\<close>

fun py_iter :: "yaml \<Rightarrow> py_error + yaml list" where
  "py_iter (YList xs) = Inr xs"
| "py_iter (YMap m) = Inr (map (\<lambda>kv. YStr (fst kv)) m)"
| "py_iter (YStr s) = Inr (map (\<lambda>c. YStr [c]) s)"
| "py_iter _ = Inl TypeError"

text \<open>\<^verbatim>\<open>a, b = x\<close>: exactly two elements, or \<^verbatim>\<open>ValueError\<close>.\<close>

definition unpack2 :: "yaml \<Rightarrow> py_error + (yaml \<times> yaml)" where
  "unpack2 x =
     (case py_iter x of
        Inl e \<Rightarrow> Inl e
      | Inr [a, b] \<Rightarrow> Inr (a, b)
      | Inr _ \<Rightarrow> Inl ValueError)"

text \<open>A value compared with a float: numbers and booleans compare, all else raises.\<close>

fun as_number :: "yaml \<Rightarrow> py_error + real" where
  "as_number (YNum r) = Inr r"
| "as_number (YBool b) = Inr (if b then 1 else 0)"
| "as_number _ = Inl TypeError"

subsection \<open>Strings\<close>

text \<open>\<^verbatim>\<open>path.split(".")\<close>: every dot separates, empty segments are kept.\<close>

fun split_dot :: "string \<Rightarrow> string list" where
  "split_dot [] = [[]]"
| "split_dot (c # cs) =
     (if c = CHR ''.'' then [] # split_dot cs
      else (case split_dot cs of
              [] \<Rightarrow> [[c]]
            | w # ws \<Rightarrow> (c # w) # ws))"

text \<open>\<^verbatim>\<open>s.startswith(a)\<close>, \<^verbatim>\<open>s.endswith(a)\<close> and \<^verbatim>\<open>a in s\<close> on strings.\<close>

fun startswith :: "string \<Rightarrow> string \<Rightarrow> bool" where
  "startswith s [] = True"
| "startswith [] (a # as) = False"
| "startswith (c # cs) (a # as) = (c = a \<and> startswith cs as)"

definition endswith :: "string \<Rightarrow> string \<Rightarrow> bool" where
  "endswith s a = startswith (rev s) (rev a)"

fun contains :: "string \<Rightarrow> string \<Rightarrow> bool" where
  "contains a [] = (a = [])"
| "contains a (c # cs) = (startswith (c # cs) a \<or> contains a cs)"

section \<open>The governor engine (engine.py)\<close>

record GovernorDecision =
  allowed :: bool
  reason :: string
  requires_approval :: bool

text \<open>
  An audit entry. The source stores \<^verbatim>\<open>str(decision)\<close>; the model keeps the value
  that is rendered: a permission decision, or the input and output of a clamp.
\<close>

datatype audit_payload =
    PermissionDecision GovernorDecision
  | ClampResult real real

record AuditRecord =
  time :: string
  event :: string
  subject :: string
  decision :: audit_payload

text \<open>
  The engine: the rules loaded at construction (a dict, since
  \<^verbatim>\<open>self.rules["governor"]["version"]\<close> was read from it) and the audit log.
\<close>

record GovernorEngine =
  rules :: "(string \<times> yaml) list"
  audit_log :: "AuditRecord list"

text \<open>\<^verbatim>\<open>_audit\<close>: one entry appended, stamped with the clock reading \<open>now\<close>.\<close>

definition audit :: "string \<Rightarrow> string \<Rightarrow> string \<Rightarrow> audit_payload \<Rightarrow> GovernorEngine \<Rightarrow> GovernorEngine" where
  "audit now ev subj d eng =
     eng\<lparr>audit_log := audit_log eng @
       [\<lparr>time = now, event = ev, subject = subj, decision = d\<rparr>]\<rparr>"

text \<open>The loop of \<^verbatim>\<open>_lookup_permission\<close>: \<^verbatim>\<open>for p in parts: node = node[p]\<close>.\<close>

fun walk :: "yaml \<Rightarrow> string list \<Rightarrow> py_error + yaml" where
  "walk node [] = Inr node"
| "walk node (p # ps) =
     (case subscript node p of
        Inl e \<Rightarrow> Inl e
      | Inr child \<Rightarrow> walk child ps)"

text \<open>\<^verbatim>\<open>_lookup_permission\<close>: any exception of the walk is caught and answers False.\<close>

definition lookup_permission :: "GovernorEngine \<Rightarrow> string \<Rightarrow> bool" where
  "lookup_permission eng path =
     (case walk (dict_get (rules eng) ''permissions'' (YMap [])) (split_dot path) of
        Inl e \<Rightarrow> False
      | Inr node \<Rightarrow> True)"

text \<open>
  \<^verbatim>\<open>any(path.endswith(a) or a in path for a in approvals)\<close>: stops at the first hit;
  an entry that is not a string raises in \<^verbatim>\<open>endswith\<close>.
\<close>

fun any_approval :: "string \<Rightarrow> yaml list \<Rightarrow> py_error + bool" where
  "any_approval path [] = Inr False"
| "any_approval path (YStr a # rest) =
     (if endswith path a \<or> contains a path then Inr True else any_approval path rest)"
| "any_approval path (_ # rest) = Inl TypeError"

text \<open>\<^verbatim>\<open>_requires_approval\<close>: not guarded by any \<^verbatim>\<open>try\<close>.\<close>

definition path_requires_approval :: "GovernorEngine \<Rightarrow> string \<Rightarrow> py_error + bool" where
  "path_requires_approval eng path =
     (case py_iter (dict_get (rules eng) ''approval_required_for'' (YList [])) of
        Inl e \<Rightarrow> Inl e
      | Inr approvals \<Rightarrow> any_approval path approvals)"

definition allows :: "string \<Rightarrow> GovernorEngine \<Rightarrow> string \<Rightarrow> py_error + (GovernorDecision \<times> GovernorEngine)" where
  "allows now eng permission_path =
     (let ok = lookup_permission eng permission_path in
      case path_requires_approval eng permission_path of
        Inl e \<Rightarrow> Inl e
      | Inr appr \<Rightarrow>
          (let d = \<lparr>allowed = ok,
                    reason = (if ok then ''allowed'' else ''forbidden''),
                    requires_approval = appr\<rparr>
           in Inr (d, audit now ''permission_check'' permission_path (PermissionDecision d) eng)))"

text \<open>The \<^verbatim>\<open>bounds = (...)\<close> expression of \<^verbatim>\<open>clamp\<close>: three chained \<^verbatim>\<open>get\<close>s.\<close>

definition lookup_bounds :: "GovernorEngine \<Rightarrow> string \<Rightarrow> py_error + yaml" where
  "lookup_bounds eng key =
     (case py_get (dict_get (rules eng) ''learning_bounds'' (YMap [])) ''personality_clamp'' (YMap []) of
        Inl e \<Rightarrow> Inl e
      | Inr table \<Rightarrow> py_get table key YNull)"

definition clamp :: "string \<Rightarrow> GovernorEngine \<Rightarrow> string \<Rightarrow> string \<Rightarrow> real \<Rightarrow> py_error + (real \<times> GovernorEngine)" where
  "clamp now eng category key v =
     (case lookup_bounds eng key of
        Inl e \<Rightarrow> Inl e
      | Inr bounds \<Rightarrow>
          if \<not> truthy bounds then Inr (v, eng)
          else (case unpack2 bounds of
                  Inl e \<Rightarrow> Inl e
                | Inr (min_v, max_v) \<Rightarrow>
                    (case as_number max_v of
                       Inl e \<Rightarrow> Inl e
                     | Inr hi \<Rightarrow>
                         (case as_number min_v of
                            Inl e \<Rightarrow> Inl e
                          | Inr lo \<Rightarrow>
                              (let clamped = max lo (min hi v)
                               in Inr (clamped,
                                       audit now ''clamp'' (category @ ''.'' @ key)
                                         (ClampResult v clamped) eng))))))"

text \<open>\<^verbatim>\<open>enforce\<close> reads the decision's fields.\<close>

definition enforce :: "string \<Rightarrow> GovernorEngine \<Rightarrow> string \<Rightarrow> py_error + GovernorEngine" where
  "enforce now eng permission_path =
     (case allows now eng permission_path of
        Inl e \<Rightarrow> Inl e
      | Inr (d, eng') \<Rightarrow>
          if \<not> allowed d then
            Inl (GovernorViolation
                   (''Action '' @ [CHR 0x27] @ permission_path @ [CHR 0x27] @
                    '' is forbidden by Governor.''))
          else if requires_approval d then
            Inl (GovernorViolation
                   (''Action '' @ [CHR 0x27] @ permission_path @ [CHR 0x27] @
                    '' requires human approval.''))
          else Inr eng')"

section \<open>The memory core (memory.py)\<close>

text \<open>An emotion dict keeps its keys in insertion order: an association list.\<close>

type_synonym emotion_dict = "(string \<times> real) list"

record MemoryItem =
  timestamp :: real
  user_input :: string
  assistant_response :: string
  intent :: string
  emotion :: emotion_dict
  importance :: real
  summary :: "string option"

text \<open>
  The memory file as \<^verbatim>\<open>_load\<close> sees it: missing; unreadable or not a JSON object;
  or a JSON object whose \<^verbatim>\<open>short_term\<close> and \<^verbatim>\<open>long_term\<close> entries are each
  absent, not a list of well-formed items, or a list of items.
\<close>

datatype raw_list = KeyAbsent | Malformed | Items "MemoryItem list"

datatype disk = NoFile | Unreadable | Json raw_list raw_list

record MemoryCore =
  memory_file :: disk
  short_term_limit :: int
  importance_threshold :: real
  short_term :: "MemoryItem list"
  long_term :: "MemoryItem list"

text \<open>\<^verbatim>\<open>[MemoryItem(**m) for m in data.get(key, [])]\<close>, where it does not raise.\<close>

fun items_of :: "raw_list \<Rightarrow> MemoryItem list" where
  "items_of (Items xs) = xs"
| "items_of _ = []"

text \<open>
  \<^verbatim>\<open>_load\<close>: the two lists are assigned one after the other inside one \<^verbatim>\<open>try\<close>, so
  a malformed \<^verbatim>\<open>long_term\<close> leaves the \<^verbatim>\<open>short_term\<close> already assigned.
\<close>

definition load :: "MemoryCore \<Rightarrow> MemoryCore" where
  "load m =
     (case memory_file m of
        NoFile \<Rightarrow> m
      | Unreadable \<Rightarrow> m
      | Json s l \<Rightarrow>
          if s = Malformed then m
          else (let m1 = m\<lparr>short_term := items_of s\<rparr>
                in if l = Malformed then m1 else m1\<lparr>long_term := items_of l\<rparr>))"

text \<open>\<^verbatim>\<open>MemoryCore.__init__\<close>: empty lists, then \<^verbatim>\<open>_load\<close>.\<close>

definition MemoryCore_init :: "disk \<Rightarrow> int \<Rightarrow> real \<Rightarrow> MemoryCore" where
  "MemoryCore_init file limit threshold =
     load \<lparr>memory_file = file, short_term_limit = limit, importance_threshold = threshold,
           short_term = [], long_term = []\<rparr>"

text \<open>
  \<^verbatim>\<open>save\<close>: the file is rewritten whole. A failed write is only logged; the lists in
  memory are the same either way.
\<close>

definition save :: "MemoryCore \<Rightarrow> MemoryCore" where
  "save m = m\<lparr>memory_file := Json (Items (short_term m)) (Items (long_term m))\<rparr>"

definition add_interaction ::
  "real \<Rightarrow> string \<Rightarrow> string \<Rightarrow> string \<Rightarrow> emotion_dict \<Rightarrow> real \<Rightarrow> MemoryCore \<Rightarrow> MemoryCore" where
  "add_interaction now u_in a_resp int_name emo imp m =
     (let item = \<lparr>timestamp = now, user_input = u_in, assistant_response = a_resp,
                  intent = int_name, emotion = emo, importance = imp, summary = None\<rparr>;
          st1 = short_term m @ [item];
          st2 = (if int (length st1) > short_term_limit m then tl st1 else st1);
          lt = (if imp \<ge> importance_threshold m then long_term m @ [item] else long_term m)
      in save (m\<lparr>short_term := st2, long_term := lt\<rparr>))"

text \<open>\<^verbatim>\<open>sep.join(parts)\<close>.\<close>

fun join :: "string \<Rightarrow> string list \<Rightarrow> string" where
  "join sep [] = []"
| "join sep [x] = x"
| "join sep (x # y # ys) = x @ sep @ join sep (y # ys)"

definition get_recent_context :: "MemoryCore \<Rightarrow> string" where
  "get_recent_context m =
     join [CHR 0x0A]
       (concat (map (\<lambda>i. [''User: '' @ user_input i, ''MIKA: '' @ assistant_response i])
                    (short_term m)))"

text \<open>
  \<^verbatim>\<open>get_emotional_trend\<close>: per-key totals over the short-term items, in order of first
  appearance, divided by the number of items; the empty dict when there are none.
\<close>

definition add_totals :: "emotion_dict \<Rightarrow> emotion_dict \<Rightarrow> emotion_dict" where
  "add_totals totals e =
     fold (\<lambda>kv t. AList.update (fst kv) (dict_get t (fst kv) 0 + snd kv) t) e totals"

definition get_emotional_trend :: "MemoryCore \<Rightarrow> emotion_dict" where
  "get_emotional_trend m =
     (if short_term m = [] then []
      else map (\<lambda>kv. (fst kv, snd kv / real (length (short_term m))))
             (fold (\<lambda>i t. add_totals t (emotion i)) (short_term m) []))"

text \<open>\<^verbatim>\<open>xs[i:]\<close>: a negative start counts from the end, and \<^verbatim>\<open>xs[0:]\<close> is all of \<open>xs\<close>.\<close>

definition slice_from :: "int \<Rightarrow> 'a list \<Rightarrow> 'a list" where
  "slice_from i xs =
     (if i < 0 then drop (nat (max 0 (int (length xs) + i))) xs else drop (nat i) xs)"

text \<open>
  \<^verbatim>\<open>summarize_long_term\<close>. The rendering of \<^verbatim>\<open>round(m.importance, 2)\<close> inside the
  f-string is the parameter \<open>fmt\<close>.
\<close>

definition summarize_long_term :: "real \<Rightarrow> (real \<Rightarrow> string) \<Rightarrow> int \<Rightarrow> MemoryCore \<Rightarrow> MemoryCore" where
  "summarize_long_term now fmt max_items m =
     (if int (length (long_term m)) \<le> max_items then m
      else (let summary_text =
                  join '' | '' (map (\<lambda>i. intent i @ '' ('' @ fmt (importance i) @ '')'')
                                    (slice_from (- max_items) (long_term m)));
                summary_item =
                  \<lparr>timestamp = now, user_input = ''(summary)'',
                   assistant_response = ''(summary)'', intent = ''memory_summary'',
                   emotion = get_emotional_trend m, importance = 1,
                   summary = Some summary_text\<rparr>
            in save (m\<lparr>long_term := [summary_item]\<rparr>)))"

section \<open>The emotion state (emotion.py)\<close>

definition EmotionState_init :: emotion_dict where
  "EmotionState_init =
     [(''happiness'', 0.5), (''sadness'', 0.2), (''curiosity'', 0.3), (''affinity'', 0)]"

text \<open>\<^verbatim>\<open>d[k]\<close> on a dict: \<^verbatim>\<open>KeyError\<close> when the key is absent.\<close>

definition getitem :: "(string \<times> 'v) list \<Rightarrow> string \<Rightarrow> py_error + 'v" where
  "getitem d k = (case map_of d k of None \<Rightarrow> Inl KeyError | Some v \<Rightarrow> Inr v)"

text \<open>\<^verbatim>\<open>adjust_emotions\<close>: four assignments, each reading the axis it writes.\<close>

definition adjust_emotions :: "real \<Rightarrow> emotion_dict \<Rightarrow> py_error + emotion_dict" where
  "adjust_emotions delta d =
     (case getitem d ''happiness'' of
        Inl e \<Rightarrow> Inl e
      | Inr h \<Rightarrow>
     (let d1 = AList.update ''happiness'' (max 0 (min 1 (h + delta * 0.1))) d in
      case getitem d1 ''sadness'' of
        Inl e \<Rightarrow> Inl e
      | Inr sd \<Rightarrow>
     (let d2 = AList.update ''sadness'' (max 0 (min 1 (sd - delta * 0.05))) d1 in
      case getitem d2 ''curiosity'' of
        Inl e \<Rightarrow> Inl e
      | Inr c \<Rightarrow>
     (let d3 = AList.update ''curiosity'' (max 0 (min 1 (c + delta * 0.02))) d2 in
      case getitem d3 ''affinity'' of
        Inl e \<Rightarrow> Inl e
      | Inr af \<Rightarrow> Inr (AList.update ''affinity'' (max 0 (min 1 (af + delta * 0.01))) d3)))))"

definition update_emotion :: "string \<Rightarrow> real \<Rightarrow> emotion_dict \<Rightarrow> emotion_dict" where
  "update_emotion k v d =
     (if map_of d k \<noteq> None then AList.update k (max 0 (min 1 v)) d else d)"

text \<open>\<^verbatim>\<open>emotional_summary\<close> returns a copy of the dict.\<close>

definition emotional_summary :: "emotion_dict \<Rightarrow> emotion_dict" where
  "emotional_summary d = d"

section \<open>Rewards and internal feedback (feedback.py)\<close>

text \<open>
  \<^verbatim>\<open>RewardSystem.apply_reward\<close> touches its own \<^verbatim>\<open>score\<close> and the dict
  \<^verbatim>\<open>self.config.state.emotion_state\<close>; the function takes and returns the two.
\<close>

definition apply_reward :: "real \<Rightarrow> string \<Rightarrow> real \<times> emotion_dict \<Rightarrow> real \<times> emotion_dict" where
  "apply_reward points why sc =
     (let score = fst sc + points; es = snd sc in
      if points > 0 then
        (score, AList.update ''happiness'' (min 1 (dict_get es ''happiness'' 0.5 + 0.05)) es)
      else if points < 0 then
        (score, AList.update ''sadness'' (min 1 (dict_get es ''sadness'' 0.2 + 0.05)) es)
      else (score, es))"

subsection \<open>More strings\<close>

definition lower_char :: "char \<Rightarrow> char" where
  "lower_char c =
     (case map_of (zip ''ABCDEFGHIJKLMNOPQRSTUVWXYZ'' ''abcdefghijklmnopqrstuvwxyz'') c of
        None \<Rightarrow> c
      | Some l \<Rightarrow> l)"

text \<open>\<^verbatim>\<open>s.lower()\<close>, on ASCII letters.\<close>

definition lower :: "string \<Rightarrow> string" where
  "lower s = map lower_char s"

definition is_space :: "char \<Rightarrow> bool" where
  "is_space c = (c \<in> set [CHR 0x20, CHR 0x09, CHR 0x0A, CHR 0x0B, CHR 0x0C, CHR 0x0D,
                            CHR 0x1C, CHR 0x1D, CHR 0x1E, CHR 0x1F])"

text \<open>\<^verbatim>\<open>s.strip()\<close>.\<close>

definition strip :: "string \<Rightarrow> string" where
  "strip s = rev (dropWhile is_space (rev (dropWhile is_space s)))"

text \<open>The right single quotation mark of the source's messages, in UTF-8.\<close>

definition rsquo :: string where
  "rsquo = [CHR 0xE2, CHR 0x80, CHR 0x99]"

text \<open>
  \<^verbatim>\<open>InternalFeedback.evaluate_response\<close>, first component of its result; \<open>traits\<close> is
  \<^verbatim>\<open>config.personality.get("core_traits", [])\<close>.
\<close>

definition evaluate_response :: "string list \<Rightarrow> string \<Rightarrow> string \<Rightarrow> string" where
  "evaluate_response traits user_text response =
     (if ''empathetic'' \<in> set traits \<and>
         list_ex (\<lambda>w. contains w (lower user_text)) [''sad'', ''stressed'', ''upset'']
      then response @ '' I'm here with you.''
      else response)"

section \<open>The assistant (assistant.py)\<close>

text \<open>The analyzer's metadata: the \<^verbatim>\<open>sentiment\<close> entry, when the dict has one.\<close>

record metadata =
  sentiment :: "(string \<times> real) list option"

text \<open>
  What the turn calls outside the modelled core: the analyzer; the resolution and call of a
  command handler, which may change the emotion engine and answers \<open>None\<close> when anything
  inside the \<^verbatim>\<open>try\<close> raised; and the language model, if one is loaded, called with the
  recent context, the emotional trend and the prompt, answering its raw text.
\<close>

record externals =
  analyze :: "string \<Rightarrow> string \<times> metadata"
  run_handler :: "string \<Rightarrow> string \<Rightarrow> metadata \<Rightarrow> emotion_dict \<Rightarrow> string option \<times> emotion_dict"
  llm :: "(string \<Rightarrow> emotion_dict \<Rightarrow> string \<Rightarrow> string) option"

datatype turn_event =
    Analyzed string
  | CommandRun string
  | Generated string
  | Spoke string

text \<open>
  The assistant's state: \<^verbatim>\<open>config.commands\<close>, the personality's core traits,
  \<^verbatim>\<open>config.state.emotion_state\<close>, the governor, the \<^verbatim>\<open>EmotionState\<close> engine's dict,
  the reward score, the memory, and the record of what the turn did.
\<close>

record mika =
  commands :: "(string \<times> string) list"
  core_traits :: "string list"
  config_emotion_state :: emotion_dict
  governor :: GovernorEngine
  emotion_engine :: emotion_dict
  reward_score :: real
  memory :: MemoryCore
  trace :: "turn_event list"

definition speak :: "string \<Rightarrow> mika \<Rightarrow> mika" where
  "speak msg s = s\<lparr>trace := trace s @ [Spoke msg]\<rparr>"

text \<open>\<^verbatim>\<open>self.reward_system.apply_reward(points, reason)\<close> on the assistant's state.\<close>

definition reward :: "real \<Rightarrow> string \<Rightarrow> mika \<Rightarrow> mika" where
  "reward points why s =
     (let r = apply_reward points why (reward_score s, config_emotion_state s)
      in s\<lparr>reward_score := fst r, config_emotion_state := snd r\<rparr>)"

text \<open>
  \<^verbatim>\<open>not self.governor.allows(...)\<close> tests the truth value of the returned object.
  \<^verbatim>\<open>GovernorDecision\<close> is a dataclass with neither \<^verbatim>\<open>__bool__\<close> nor \<^verbatim>\<open>__len__\<close>, so
  every instance is true.
\<close>

definition decision_truthy :: "GovernorDecision \<Rightarrow> bool" where
  "decision_truthy d = True"

definition estimate_importance :: "string \<Rightarrow> (string \<times> real) list \<Rightarrow> emotion_dict \<Rightarrow> real" where
  "estimate_importance int_name sent emo =
     (let score0 = \<bar>dict_get emo ''happiness'' 0.5 - 0.5\<bar>
                   + \<bar>dict_get emo ''sadness'' 0.2\<bar>
                   + \<bar>dict_get emo ''curiosity'' 0.3\<bar>;
          score1 = (if int_name \<in> set [''gratitude'', ''emotion_check'', ''conversation'']
                    then score0 + 0.2 else score0);
          score2 = (if sent \<noteq> [] then score1 + \<bar>dict_get sent ''compound'' 0\<bar> * 0.3
                    else score1)
      in min score2 1)"

definition llm_response :: "externals \<Rightarrow> string \<Rightarrow> mika \<Rightarrow> string" where
  "llm_response ext prompt s =
     (case llm ext of
        None \<Rightarrow> ''I'' @ rsquo @ ''m listening. Tell me more.''
      | Some generate \<Rightarrow>
          (let out = generate (get_recent_context (memory s)) (get_emotional_trend (memory s)) prompt
           in if out \<noteq> [] then strip out else ''I'' @ rsquo @ ''m listening.''))"

text \<open>The routing step of \<^verbatim>\<open>handle_input\<close>: the response and the state after it.\<close>

definition route :: "externals \<Rightarrow> string \<Rightarrow> string \<Rightarrow> metadata \<Rightarrow> mika \<Rightarrow> py_error + (string \<times> mika)" where
  "route ext now_iso txt md s =
     (case map_of (commands s) (lower txt) of
        Some target \<Rightarrow>
          (case allows now_iso (governor s) ''tools.execute_code_in_sandbox'' of
             Inl e \<Rightarrow> Inl e
           | Inr (d, g) \<Rightarrow>
               if \<not> decision_truthy d then
                 Inr (''I'' @ rsquo @ ''m not permitted to execute that command.'', s\<lparr>governor := g\<rparr>)
               else
                 (let r = run_handler ext target txt md (emotion_engine s);
                      s1 = s\<lparr>governor := g, emotion_engine := snd r,
                             trace := trace s @ [CommandRun target]\<rparr>
                  in case fst r of
                       Some response \<Rightarrow> Inr (response, reward 1 ''command_success'' s1)
                     | None \<Rightarrow> Inr (''I couldn'' @ rsquo @ ''t complete that command.'',
                                     reward (- 1) ''command_failure'' s1)))
      | None \<Rightarrow>
          Inr (llm_response ext txt s, s\<lparr>trace := trace s @ [Generated txt]\<rparr>))"

definition handle_input :: "externals \<Rightarrow> string \<Rightarrow> real \<Rightarrow> string \<Rightarrow> mika \<Rightarrow> py_error + mika" where
  "handle_input ext now_iso now txt s =
     (case allows now_iso (governor s) ''cognition.reason'' of
        Inl e \<Rightarrow> Inl e
      | Inr (d, g) \<Rightarrow>
          if \<not> decision_truthy d then
            Inr (speak (''I'' @ rsquo @ ''m not allowed to reason right now.'') (s\<lparr>governor := g\<rparr>))
          else
            (let a = analyze ext txt;
                 s1 = s\<lparr>governor := g, trace := trace s @ [Analyzed txt]\<rparr>;
                 emotion_before = emotional_summary (emotion_engine s1)
             in case route ext now_iso txt (snd a) s1 of
                  Inl e \<Rightarrow> Inl e
                | Inr (response, s2) \<Rightarrow>
                    (let adjusted_response = evaluate_response (core_traits s2) txt response;
                         imp = estimate_importance (fst a)
                                 (case sentiment (snd a) of None \<Rightarrow> [] | Some sd \<Rightarrow> sd)
                                 emotion_before
                     in Inr (speak adjusted_response
                               (s2\<lparr>memory := add_interaction now txt adjusted_response (fst a)
                                                emotion_before imp (memory s2)\<rparr>)))))"

text \<open>\<^verbatim>\<open>Config.commands\<close> as the dataclass default builds it.\<close>

definition default_commands :: "(string \<times> string) list" where
  "default_commands =
     [(''set timer'', ''mika_trial.commands.CommandProcessor.set_timer''),
      (''list projects'', ''mika_trial.commands.CommandProcessor.list_projects''),
      (''thank you'', ''mika_trial.commands.CommandProcessor.fallback_chat''),
      (''hi'', ''mika_trial.commands.CommandProcessor.fallback_chat''),
      (''how are you'', ''mika_trial.commands.CommandProcessor.fallback_chat''),
      (''i'm good'', ''mika_trial.commands.CommandProcessor.fallback_chat'')]"

text \<open>
  \<^verbatim>\<open>MikaAssistant.__init__\<close> with a default \<^verbatim>\<open>Config\<close>: the state is built from the
  rules of the governor file and the memory file found at start.
\<close>

definition MikaAssistant_init :: "(string \<times> yaml) list \<Rightarrow> disk \<Rightarrow> mika" where
  "MikaAssistant_init governor_rules file =
     \<lparr>commands = default_commands,
      core_traits = [],
      config_emotion_state =
        [(''happiness'', 0.5), (''sadness'', 0.2), (''curiosity'', 0.3), (''affinity'', 0)],
      governor = \<lparr>rules = governor_rules, audit_log = []\<rparr>,
      emotion_engine = EmotionState_init,
      reward_score = 0,
      memory = MemoryCore_init file 10 0.6,
      trace = []\<rparr>"

section \<open>Sequences of operations and sample inputs\<close>

text \<open>
  The specification's notion of a path being present in the permission tree: every
  segment is a key of the mapping reached so far.
\<close>

fun path_present_spec :: "yaml \<Rightarrow> string list \<Rightarrow> bool" where
  "path_present_spec node [] = True"
| "path_present_spec (YMap m) (p # ps) =
     (case map_of m p of None \<Rightarrow> False | Some child \<Rightarrow> path_present_spec child ps)"
| "path_present_spec _ (p # ps) = False"

text \<open>Any sequence of memory operations, and the items its additions construct.\<close>

datatype mem_op =
    Add real string string string emotion_dict real
  | Summarize real int

fun apply_mem_op :: "(real \<Rightarrow> string) \<Rightarrow> mem_op \<Rightarrow> MemoryCore \<Rightarrow> MemoryCore" where
  "apply_mem_op fmt (Add now u a i e p) m = add_interaction now u a i e p m"
| "apply_mem_op fmt (Summarize now max_items) m = summarize_long_term now fmt max_items m"

definition run_mem_ops :: "(real \<Rightarrow> string) \<Rightarrow> mem_op list \<Rightarrow> MemoryCore \<Rightarrow> MemoryCore" where
  "run_mem_ops fmt ops m = fold (apply_mem_op fmt) ops m"

fun added_items :: "mem_op list \<Rightarrow> MemoryItem list" where
  "added_items [] = []"
| "added_items (Add now u a i e p # ops) =
     \<lparr>timestamp = now, user_input = u, assistant_response = a, intent = i, emotion = e,
      importance = p, summary = None\<rparr> # added_items ops"
| "added_items (Summarize now max_items # ops) = added_items ops"

text \<open>What a consolidation summary looks like.\<close>

definition is_summary_item :: "MemoryItem \<Rightarrow> bool" where
  "is_summary_item x = (intent x = ''memory_summary'' \<and> importance x = 1 \<and> summary x \<noteq> None)"

text \<open>
  Any sequence of \<^verbatim>\<open>adjust_emotions\<close> and \<^verbatim>\<open>apply_reward\<close> calls on the assistant's
  state: the first acts on the emotion engine's dict, the second on the reward score and
  on the dict in \<^verbatim>\<open>config.state\<close>.
\<close>

datatype affect_op = Adjust real | Reward real string

fun apply_affect_op :: "affect_op \<Rightarrow> mika \<Rightarrow> py_error + mika" where
  "apply_affect_op (Adjust delta) s =
     (case adjust_emotions delta (emotion_engine s) of
        Inl e \<Rightarrow> Inl e
      | Inr d \<Rightarrow> Inr (s\<lparr>emotion_engine := d\<rparr>))"
| "apply_affect_op (Reward points why) s = Inr (reward points why s)"

fun run_affect_ops :: "affect_op list \<Rightarrow> mika \<Rightarrow> py_error + mika" where
  "run_affect_ops [] s = Inr s"
| "run_affect_ops (op # ops) s =
     (case apply_affect_op op s of
        Inl e \<Rightarrow> Inl e
      | Inr s1 \<Rightarrow> run_affect_ops ops s1)"

text \<open>An axis is present with a value in the unit interval; all four axes are.\<close>

definition axis_in_unit :: "emotion_dict \<Rightarrow> string \<Rightarrow> bool" where
  "axis_in_unit d k = (case map_of d k of None \<Rightarrow> False | Some v \<Rightarrow> 0 \<le> v \<and> v \<le> 1)"

definition axes_in_unit :: "emotion_dict \<Rightarrow> bool" where
  "axes_in_unit d =
     (axis_in_unit d ''happiness'' \<and> axis_in_unit d ''sadness'' \<and>
      axis_in_unit d ''curiosity'' \<and> axis_in_unit d ''affinity'')"

subsection \<open>Sample inputs\<close>

text \<open>
  Three governor files: one that grants reasoning and sandboxed tools (and has a scalar
  where a mapping is expected, under \<^verbatim>\<open>models\<close>), one that grants neither, and one
  that grants reasoning only.
\<close>

definition rules_allow :: "(string \<times> yaml) list" where
  "rules_allow =
     [(''governor'', YMap [(''version'', YStr ''1.0'')]),
      (''permissions'',
         YMap [(''cognition'', YMap [(''reason'', YBool True)]),
               (''tools'', YMap [(''execute_code_in_sandbox'', YBool True)]),
               (''models'', YStr ''none'')]),
      (''approval_required_for'', YList [YStr ''deploy'']),
      (''learning_bounds'',
         YMap [(''personality_clamp'', YMap [(''humor'', YList [YNum 0, YNum 1])])])]"

definition rules_deny :: "(string \<times> yaml) list" where
  "rules_deny =
     [(''governor'', YMap [(''version'', YStr ''1.0'')]),
      (''permissions'', YMap [(''models'', YMap [(''create_neural_networks'', YBool True)])]),
      (''approval_required_for'', YList [YStr ''deploy''])]"

definition rules_no_tools :: "(string \<times> yaml) list" where
  "rules_no_tools =
     [(''governor'', YMap [(''version'', YStr ''1.0'')]),
      (''permissions'', YMap [(''cognition'', YMap [(''reason'', YBool True)])]),
      (''approval_required_for'', YList [YStr ''deploy''])]"

definition engine0 :: GovernorEngine where
  "engine0 = \<lparr>rules = rules_allow, audit_log = []\<rparr>"

text \<open>
  Two engines whose approval list is malformed: a null where the list is expected, and a
  list with a null after a string.
\<close>

definition engine_null_approvals :: GovernorEngine where
  "engine_null_approvals =
     \<lparr>rules =
        [(''governor'', YMap [(''version'', YStr ''1.0'')]),
         (''permissions'', YMap [(''cognition'', YMap [(''reason'', YBool True)])]),
         (''approval_required_for'', YNull)],
      audit_log = []\<rparr>"

definition engine_mixed_approvals :: GovernorEngine where
  "engine_mixed_approvals =
     \<lparr>rules =
        [(''governor'', YMap [(''version'', YStr ''1.0'')]),
         (''permissions'', YMap [(''tools'', YMap [(''deploy'', YBool True)])]),
         (''approval_required_for'', YList [YStr ''deploy'', YNull])],
      audit_log = []\<rparr>"

text \<open>
  Collaborators: an analyzer that recognises nothing, a handler that answers as
  \<^verbatim>\<open>set_timer\<close> does on a well-formed request, and no language model; and an analyzer
  that reports gratitude with a handler that lifts the mood.
\<close>

definition ext_plain :: externals where
  "ext_plain =
     \<lparr>analyze = (\<lambda>t. (''unknown'', \<lparr>sentiment = None\<rparr>)),
      run_handler = (\<lambda>target t md e. (Some ''Timer set for 5 minutes!'', e)),
      llm = None\<rparr>"

definition ext_thanks :: externals where
  "ext_thanks =
     \<lparr>analyze = (\<lambda>t. (''gratitude'',
          \<lparr>sentiment = Some [(''neg'', 0), (''neu'', 0.2), (''pos'', 0.8), (''compound'', 0.5)]\<rparr>)),
      run_handler = (\<lambda>target t md e.
          (Some ''You're welcome, Yuu!'',
           case adjust_emotions 2 e of Inl err \<Rightarrow> e | Inr e' \<Rightarrow> e')),
      llm = None\<rparr>"

definition item_n :: "nat \<Rightarrow> real \<Rightarrow> MemoryItem" where
  "item_n k p = \<lparr>timestamp = real k, user_input = ''q'', assistant_response = ''r'',
      intent = ''unknown'', emotion = [], importance = p, summary = None\<rparr>"

definition add_n :: "nat \<Rightarrow> real \<Rightarrow> mem_op" where
  "add_n k p = Add (real k) ''q'' ''r'' ''unknown'' [] p"

definition fmt0 :: "real \<Rightarrow> string" where
  "fmt0 r = ''0.0''"

definition fresh_store :: MemoryCore where
  "fresh_store = MemoryCore_init NoFile 10 0.6"

definition eleven_adds :: "mem_op list" where
  "eleven_adds = map (\<lambda>k. add_n k 0.59) [1, 2, 3, 4, 5, 6, 7, 8, 9, 10, 11]"

definition two_long_term :: MemoryCore where
  "two_long_term = fresh_store\<lparr>long_term := [item_n 1 0.7, item_n 2 0.9]\<rparr>"

definition sample_ops :: "affect_op list" where
  "sample_ops =
     [Adjust 20, Reward 1 ''command_success'', Adjust (- 300), Reward (- 1) ''command_failure'']"

section \<open>The governor: permission lookup and the audit log\<close>

lemma walk_present: "(\<exists>n. walk node ps = Inr n) = path_present_spec node ps"
  by (induction node ps rule: path_present_spec.induct) (auto split: option.splits)

lemma lookup_permission_present:
  "lookup_permission eng p =
     path_present_spec (dict_get (rules eng) ''permissions'' (YMap [])) (split_dot p)"
  unfolding lookup_permission_def
  using walk_present [of "dict_get (rules eng) ''permissions'' (YMap [])" "split_dot p"]
  by (auto split: sum.splits)

lemma walk_append:
  "walk node (ps @ qs) = (case walk node ps of Inl e \<Rightarrow> Inl e | Inr n \<Rightarrow> walk n qs)"
  by (induction ps arbitrary: node) (auto split: sum.splits)

lemma walk_non_mapping: "\<forall>m. n \<noteq> YMap m \<Longrightarrow> walk n (q # qs) = Inl TypeError"
  by (cases n) auto

lemma walk_take: "walk node ps = Inr n \<Longrightarrow> prefix qs ps \<Longrightarrow> \<exists>m. walk node qs = Inr m"
  by (auto simp: prefix_def walk_append split: sum.splits)

lemma split_dot_nonempty: "split_dot s \<noteq> []"
  by (induction s) (auto split: list.splits)

lemma allows_rules_allow:
  "allows now_iso \<lparr>rules = rules_allow, audit_log = lg\<rparr> ''cognition.reason'' =
     Inr (\<lparr>allowed = True, reason = ''allowed'', requires_approval = False\<rparr>,
          audit now_iso ''permission_check'' ''cognition.reason''
            (PermissionDecision \<lparr>allowed = True, reason = ''allowed'', requires_approval = False\<rparr>)
            \<lparr>rules = rules_allow, audit_log = lg\<rparr>)"
  "allows now_iso \<lparr>rules = rules_allow, audit_log = lg\<rparr> ''tools.execute_code_in_sandbox'' =
     Inr (\<lparr>allowed = True, reason = ''allowed'', requires_approval = False\<rparr>,
          audit now_iso ''permission_check'' ''tools.execute_code_in_sandbox''
            (PermissionDecision \<lparr>allowed = True, reason = ''allowed'', requires_approval = False\<rparr>)
            \<lparr>rules = rules_allow, audit_log = lg\<rparr>)"
  by (simp_all add: allows_def lookup_permission_def path_requires_approval_def rules_allow_def
      dict_get_def endswith_def Let_def)

lemma any_approval_strings:
  "\<forall>x \<in> set xs. \<exists>a. x = YStr a \<Longrightarrow> \<exists>b. any_approval p xs = Inr b"
  by (induction xs) auto

lemma approval_scan_returns:
  assumes "dict_get (rules eng) ''approval_required_for'' (YList []) = YList xs"
    and "\<forall>x \<in> set xs. \<exists>a. x = YStr a"
  shows "\<exists>appr. path_requires_approval eng p = Inr appr"
  using assms any_approval_strings [of xs p] by (simp add: path_requires_approval_def)

text \<open>
  C7, as the code has it. \<open>allows\<close> raises exactly when the scan of the approval list
  raises, which it does not when \<^verbatim>\<open>approval_required_for\<close> is absent or a list of
  strings; the walk of the permission tree never raises. Whenever \<open>allows\<close> returns: a
  path that is absent from the permission tree is answered \<open>allowed = False\<close> with reason
  \<open>forbidden\<close>; a path present as a full chain of segments is answered
  \<open>allowed = True\<close>; a node that is not a mapping where the walk has to descend makes the
  lookup fail closed; and the rules are left as they were, so no other path is affected.
\<close>

theorem allows_fails_closed:
  "(\<forall>e. allows now eng p = Inl e \<longleftrightarrow> path_requires_approval eng p = Inl e) \<and>
   (\<forall>xs. dict_get (rules eng) ''approval_required_for'' (YList []) = YList xs \<and>
         (\<forall>x \<in> set xs. \<exists>a. x = YStr a)
      \<longrightarrow> (\<exists>appr. path_requires_approval eng p = Inr appr)) \<and>
   (\<forall>appr. path_requires_approval eng p = Inr appr \<longrightarrow>
      (\<exists>d eng'. allows now eng p = Inr (d, eng') \<and> rules eng' = rules eng \<and>
         requires_approval d = appr \<and>
         (\<not> path_present_spec (dict_get (rules eng) ''permissions'' (YMap [])) (split_dot p)
            \<longrightarrow> \<not> allowed d \<and> reason d = ''forbidden'') \<and>
         (path_present_spec (dict_get (rules eng) ''permissions'' (YMap [])) (split_dot p)
            \<longrightarrow> allowed d \<and> reason d = ''allowed'') \<and>
         (\<forall>pre q qs n. split_dot p = pre @ q # qs \<and>
              walk (dict_get (rules eng) ''permissions'' (YMap [])) pre = Inr n \<and>
              (\<forall>m. n \<noteq> YMap m)
            \<longrightarrow> \<not> allowed d \<and> reason d = ''forbidden'')))"
proof -
  let ?root = "dict_get (rules eng) ''permissions'' (YMap [])"
  have raise: "\<forall>e. allows now eng p = Inl e \<longleftrightarrow> path_requires_approval eng p = Inl e"
    by (simp add: allows_def Let_def split: sum.splits)
  have wf: "\<forall>xs. dict_get (rules eng) ''approval_required_for'' (YList []) = YList xs \<and>
         (\<forall>x \<in> set xs. \<exists>a. x = YStr a)
      \<longrightarrow> (\<exists>appr. path_requires_approval eng p = Inr appr)"
    using approval_scan_returns by blast
  have malformed: "\<not> lookup_permission eng p"
    if "split_dot p = pre @ q # qs" "walk ?root pre = Inr n" "\<forall>m. n \<noteq> YMap m"
    for pre q qs n
  proof -
    have "walk ?root (split_dot p) = Inl TypeError"
      using that walk_non_mapping [of n q qs] by (simp add: walk_append)
    then show ?thesis by (simp add: lookup_permission_def)
  qed
  have ret: "\<exists>d eng'. allows now eng p = Inr (d, eng') \<and> rules eng' = rules eng \<and>
         requires_approval d = appr \<and>
         (\<not> path_present_spec ?root (split_dot p) \<longrightarrow> \<not> allowed d \<and> reason d = ''forbidden'') \<and>
         (path_present_spec ?root (split_dot p) \<longrightarrow> allowed d \<and> reason d = ''allowed'') \<and>
         (\<forall>pre q qs n. split_dot p = pre @ q # qs \<and> walk ?root pre = Inr n \<and> (\<forall>m. n \<noteq> YMap m)
            \<longrightarrow> \<not> allowed d \<and> reason d = ''forbidden'')"
    if "path_requires_approval eng p = Inr appr" for appr
    using that malformed lookup_permission_present [of eng p]
    by (auto simp: allows_def Let_def audit_def)
  from raise wf ret show ?thesis by blast
qed

theorem allows_fails_closed_witness:
  "dict_get (rules engine0) ''approval_required_for'' (YList []) = YList [YStr ''deploy''] \<and>
   path_requires_approval engine0 ''models.create'' = Inr False \<and>
   split_dot ''models.create'' = [''models''] @ ''create'' # [] \<and>
   walk (dict_get (rules engine0) ''permissions'' (YMap [])) [''models''] = Inr (YStr ''none'') \<and>
   \<not> path_present_spec (dict_get (rules engine0) ''permissions'' (YMap []))
        (split_dot ''models.create'') \<and>
   (\<exists>d eng'. allows ''t0'' engine0 ''models.create'' = Inr (d, eng') \<and>
      rules eng' = rules engine0 \<and> \<not> allowed d \<and> reason d = ''forbidden'') \<and>
   path_requires_approval engine0 ''cognition.reason'' = Inr False \<and>
   path_present_spec (dict_get (rules engine0) ''permissions'' (YMap []))
        (split_dot ''cognition.reason'') \<and>
   (\<exists>d eng'. allows ''t0'' engine0 ''cognition.reason'' = Inr (d, eng') \<and>
      allowed d \<and> reason d = ''allowed'')"
proof -
  let ?root = "dict_get (rules engine0) ''permissions'' (YMap [])"
  have r1: "path_requires_approval engine0 ''models.create'' = Inr False"
    and r2: "path_requires_approval engine0 ''cognition.reason'' = Inr False"
    by (simp_all add: path_requires_approval_def engine0_def rules_allow_def dict_get_def
        endswith_def)
  have sp: "split_dot ''models.create'' = [''models''] @ ''create'' # []"
    by simp
  have w: "walk ?root [''models''] = Inr (YStr ''none'')"
    by (simp add: engine0_def rules_allow_def dict_get_def)
  have absent: "\<not> path_present_spec ?root (split_dot ''models.create'')"
    by (simp add: engine0_def rules_allow_def dict_get_def)
  have present: "path_present_spec ?root (split_dot ''cognition.reason'')"
    by (simp add: engine0_def rules_allow_def dict_get_def)
  from allows_fails_closed [of "''t0''" engine0 "''models.create''"] r1 absent
  have a1: "\<exists>d eng'. allows ''t0'' engine0 ''models.create'' = Inr (d, eng') \<and>
      rules eng' = rules engine0 \<and> \<not> allowed d \<and> reason d = ''forbidden''"
    by blast
  from allows_fails_closed [of "''t0''" engine0 "''cognition.reason''"] r2 present
  have a2: "\<exists>d eng'. allows ''t0'' engine0 ''cognition.reason'' = Inr (d, eng') \<and>
      allowed d \<and> reason d = ''allowed''"
    by blast
  have ap: "dict_get (rules engine0) ''approval_required_for'' (YList []) = YList [YStr ''deploy'']"
    by (simp add: engine0_def rules_allow_def dict_get_def)
  from ap r1 r2 sp w absent present a1 a2 show ?thesis by blast
qed

theorem allows_raises_counterexample:
  "\<not> path_present_spec (dict_get (rules engine_null_approvals) ''permissions'' (YMap []))
        (split_dot ''network.access'') \<and>
   allows ''t0'' engine_null_approvals ''network.access'' = Inl TypeError"
  by (simp add: allows_def path_requires_approval_def engine_null_approvals_def dict_get_def)

lemma split_dot_dot_free: "w \<in> set (split_dot s) \<Longrightarrow> CHR ''.'' \<notin> set w"
proof (induction s arbitrary: w)
  case Nil
  then show ?case by simp
next
  case (Cons c cs)
  show ?case
  proof (cases "c = CHR ''.''")
    case True
    with Cons show ?thesis by auto
  next
    case False
    obtain v vs where sp: "split_dot cs = v # vs"
      using split_dot_nonempty [of cs] by (cases "split_dot cs") auto
    with Cons.prems False have "w = c # v \<or> w \<in> set vs" by auto
    with Cons.IH sp False show ?thesis by auto
  qed
qed

lemma split_dot_no_dot: "CHR ''.'' \<notin> set w \<Longrightarrow> split_dot w = [w]"
  by (induction w) auto

lemma split_dot_append_dot:
  "CHR ''.'' \<notin> set w \<Longrightarrow> split_dot (w @ ''.'' @ rest) = w # split_dot rest"
  by (induction w) auto

lemma split_dot_join:
  "ws \<noteq> [] \<Longrightarrow> \<forall>w \<in> set ws. CHR ''.'' \<notin> set w \<Longrightarrow> split_dot (join ''.'' ws) = ws"
proof (induction ws rule: induct_list012)
  case 1
  then show ?case by simp
next
  case (2 x)
  then show ?case by (simp add: split_dot_no_dot)
next
  case (3 x y ys)
  then show ?case using split_dot_append_dot [of x "join ''.'' (y # ys)"] by simp
qed

lemma every_segment_prefix_is_a_path:
  assumes "0 < k"
  shows "split_dot (join ''.'' (take k (split_dot p))) = take k (split_dot p)"
proof -
  have "take k (split_dot p) \<noteq> []"
    using assms split_dot_nonempty [of p] by (cases "split_dot p") auto
  moreover have "\<forall>w \<in> set (take k (split_dot p)). CHR ''.'' \<notin> set w"
    using split_dot_dot_free by (meson in_set_takeD)
  ultimately show ?thesis by (rule split_dot_join)
qed

text \<open>
  C10, as the code has it. Permission lookup is monotone in prefixes: when \<open>allows\<close>
  answers \<open>allowed = True\<close> for a path, the lookup succeeds for every path whose segments
  are a prefix of its segments, on any engine with the same rules; \<open>allows\<close> on such a
  prefix answers \<open>allowed = True\<close> when its own scan of the approval list returns, and
  raises when that scan raises. Interior nodes of the tree are allowed, not only leaves.
  Every nonempty prefix of the segments is the segment list of a path, the prefix joined
  by dots.
\<close>

theorem allows_prefix_monotone:
  assumes "allows now eng p = Inr (d, eng1)"
    and "allowed d"
    and "prefix (split_dot q) (split_dot p)"
    and "rules eng2 = rules eng"
  shows "lookup_permission eng2 q \<and>
         (\<forall>appr. path_requires_approval eng2 q = Inr appr \<longrightarrow>
            (\<exists>eng3. allows now2 eng2 q =
               Inr (\<lparr>allowed = True, reason = ''allowed'', requires_approval = appr\<rparr>, eng3))) \<and>
         (\<forall>e. path_requires_approval eng2 q = Inl e \<longleftrightarrow> allows now2 eng2 q = Inl e)"
proof -
  let ?root = "dict_get (rules eng) ''permissions'' (YMap [])"
  from assms(1,2) have "lookup_permission eng p"
    by (auto simp: allows_def Let_def split: sum.splits)
  then obtain n where "walk ?root (split_dot p) = Inr n"
    by (auto simp: lookup_permission_def split: sum.splits)
  with assms(3) obtain m where "walk ?root (split_dot q) = Inr m"
    using walk_take by blast
  with assms(4) have look: "lookup_permission eng2 q"
    by (simp add: lookup_permission_def)
  then show ?thesis
    by (simp add: allows_def Let_def split: sum.splits)
qed

theorem allows_prefix_monotone_witness:
  "allows ''t0'' engine0 ''tools.execute_code_in_sandbox'' =
     Inr (\<lparr>allowed = True, reason = ''allowed'', requires_approval = False\<rparr>,
          audit ''t0'' ''permission_check'' ''tools.execute_code_in_sandbox''
            (PermissionDecision \<lparr>allowed = True, reason = ''allowed'', requires_approval = False\<rparr>)
            engine0) \<and>
   prefix (split_dot ''tools'') (split_dot ''tools.execute_code_in_sandbox'') \<and>
   path_requires_approval engine0 ''tools'' = Inr False \<and>
   lookup_permission engine0 ''tools'' \<and>
   (\<exists>eng3. allows ''t1'' engine0 ''tools'' =
      Inr (\<lparr>allowed = True, reason = ''allowed'', requires_approval = False\<rparr>, eng3))"
proof -
  let ?d = "\<lparr>allowed = True, reason = ''allowed'', requires_approval = False\<rparr>"
  have a: "allows ''t0'' engine0 ''tools.execute_code_in_sandbox'' =
     Inr (?d, audit ''t0'' ''permission_check'' ''tools.execute_code_in_sandbox''
                (PermissionDecision ?d) engine0)"
    by (simp add: engine0_def allows_rules_allow)
  have b: "allowed ?d" by simp
  have c: "prefix (split_dot ''tools'') (split_dot ''tools.execute_code_in_sandbox'')"
    by simp
  have r: "path_requires_approval engine0 ''tools'' = Inr False"
    by (simp add: path_requires_approval_def engine0_def rules_allow_def dict_get_def endswith_def)
  from allows_prefix_monotone [OF a b c refl, of "''t1''"] r
  have "lookup_permission engine0 ''tools''"
    and "\<exists>eng3. allows ''t1'' engine0 ''tools'' = Inr (?d, eng3)" by auto
  with a c r show ?thesis by blast
qed

theorem allows_prefix_raises_counterexample:
  "map_sum id fst (allows ''t0'' engine_mixed_approvals ''tools.deploy'') =
     Inr \<lparr>allowed = True, reason = ''allowed'', requires_approval = True\<rparr> \<and>
   prefix (split_dot ''tools'') (split_dot ''tools.deploy'') \<and>
   allows ''t1'' engine_mixed_approvals ''tools'' = Inl TypeError"
  by (simp add: allows_def lookup_permission_def path_requires_approval_def
      engine_mixed_approvals_def dict_get_def endswith_def Let_def)

text \<open>
  C3, as the code has it. A call to \<open>allows\<close> that returns has appended exactly one
  record, at the end of the log. A call to \<open>clamp\<close> that returns has appended exactly one
  record when the key has bounds that count as true, and none when the key has no bounds
  (the value is then returned unchanged). The records before the call are the same after
  it, and the rules are never changed. A record has no sequence number of its own: its
  place in the log is its number.
\<close>

theorem audit_append_only:
  "(\<forall>d eng'. allows now eng p = Inr (d, eng') \<longrightarrow>
      rules eng' = rules eng \<and>
      audit_log eng' = audit_log eng @
        [\<lparr>time = now, event = ''permission_check'', subject = p,
          decision = PermissionDecision d\<rparr>]) \<and>
   (\<forall>out eng' bounds. clamp now eng category key v = Inr (out, eng') \<and>
        lookup_bounds eng key = Inr bounds \<and> truthy bounds \<longrightarrow>
      rules eng' = rules eng \<and>
      audit_log eng' = audit_log eng @
        [\<lparr>time = now, event = ''clamp'', subject = category @ ''.'' @ key,
          decision = ClampResult v out\<rparr>]) \<and>
   (\<forall>bounds. lookup_bounds eng key = Inr bounds \<and> \<not> truthy bounds \<longrightarrow>
      clamp now eng category key v = Inr (v, eng))"
  by (auto simp: allows_def clamp_def audit_def Let_def split: sum.splits prod.splits if_splits)

theorem audit_append_only_witness:
  "allows ''t0'' engine0 ''cognition.reason'' =
     Inr (\<lparr>allowed = True, reason = ''allowed'', requires_approval = False\<rparr>,
          audit ''t0'' ''permission_check'' ''cognition.reason''
            (PermissionDecision \<lparr>allowed = True, reason = ''allowed'', requires_approval = False\<rparr>)
            engine0) \<and>
   audit_log (audit ''t0'' ''permission_check'' ''cognition.reason''
        (PermissionDecision \<lparr>allowed = True, reason = ''allowed'', requires_approval = False\<rparr>)
        engine0) =
     audit_log engine0 @
       [\<lparr>time = ''t0'', event = ''permission_check'', subject = ''cognition.reason'',
         decision = PermissionDecision
           \<lparr>allowed = True, reason = ''allowed'', requires_approval = False\<rparr>\<rparr>] \<and>
   lookup_bounds engine0 ''humor'' = Inr (YList [YNum 0, YNum 1]) \<and>
   truthy (YList [YNum 0, YNum 1]) \<and>
   clamp ''t1'' engine0 ''personality'' ''humor'' 2 =
     Inr (1, audit ''t1'' ''clamp'' ''personality.humor'' (ClampResult 2 1) engine0) \<and>
   audit_log (audit ''t1'' ''clamp'' ''personality.humor'' (ClampResult 2 1) engine0) =
     audit_log engine0 @
       [\<lparr>time = ''t1'', event = ''clamp'', subject = ''personality'' @ ''.'' @ ''humor'',
         decision = ClampResult 2 1\<rparr>] \<and>
   lookup_bounds engine0 ''warmth'' = Inr YNull \<and>
   \<not> truthy YNull \<and>
   clamp ''t1'' engine0 ''personality'' ''warmth'' 2 = Inr (2, engine0)"
proof -
  let ?d = "\<lparr>allowed = True, reason = ''allowed'', requires_approval = False\<rparr>"
  have a: "allows ''t0'' engine0 ''cognition.reason'' =
     Inr (?d, audit ''t0'' ''permission_check'' ''cognition.reason'' (PermissionDecision ?d) engine0)"
    by (simp add: engine0_def allows_rules_allow)
  have b1: "lookup_bounds engine0 ''humor'' = Inr (YList [YNum 0, YNum 1])"
    and b2: "lookup_bounds engine0 ''warmth'' = Inr YNull"
    by (simp_all add: lookup_bounds_def engine0_def rules_allow_def dict_get_def)
  have c: "clamp ''t1'' engine0 ''personality'' ''humor'' 2 =
     Inr (1, audit ''t1'' ''clamp'' ''personality.humor'' (ClampResult 2 1) engine0)"
    by (simp add: clamp_def b1 unpack2_def)
  note t = audit_append_only [of "''t0''" engine0 "''cognition.reason''"]
  note t1 = audit_append_only [of "''t1''" engine0 _ "''personality''" "''humor''" 2]
  note t2 = audit_append_only [of "''t1''" engine0 _ "''personality''" "''warmth''" 2]
  from t a have l1: "audit_log (audit ''t0'' ''permission_check'' ''cognition.reason''
        (PermissionDecision ?d) engine0) =
     audit_log engine0 @
       [\<lparr>time = ''t0'', event = ''permission_check'', subject = ''cognition.reason'',
         decision = PermissionDecision ?d\<rparr>]"
    by blast
  from t1 c b1 have l2: "audit_log (audit ''t1'' ''clamp'' ''personality.humor'' (ClampResult 2 1) engine0) =
     audit_log engine0 @
       [\<lparr>time = ''t1'', event = ''clamp'', subject = ''personality'' @ ''.'' @ ''humor'',
         decision = ClampResult 2 1\<rparr>]"
    by (metis truthy.simps(5) list.distinct(1))
  from t2 b2 have l3: "clamp ''t1'' engine0 ''personality'' ''warmth'' 2 = Inr (2, engine0)"
    by (metis truthy.simps(1))
  from a l1 b1 c l2 b2 l3 show ?thesis by simp
qed

theorem clamp_unconfigured_counterexample:
  "lookup_bounds engine0 ''warmth'' = Inr YNull \<and>
   audit_log engine0 = [] \<and>
   map_sum id (\<lambda>r. audit_log (snd r)) (clamp ''t0'' engine0 ''personality'' ''warmth'' 2) = Inr [] \<and>
   map_sum id fst (clamp ''t0'' engine0 ''personality'' ''warmth'' 2) = Inr 2"
  by (simp add: clamp_def lookup_bounds_def engine0_def rules_allow_def dict_get_def)

section \<open>The memory core: window and admission\<close>

lemma params_preserved [simp]:
  "short_term_limit (summarize_long_term now fmt k m) = short_term_limit m"
  "importance_threshold (summarize_long_term now fmt k m) = importance_threshold m"
  "short_term_limit (add_interaction now u a i e p m) = short_term_limit m"
  "importance_threshold (add_interaction now u a i e p m) = importance_threshold m"
  by (simp_all add: add_interaction_def summarize_long_term_def save_def Let_def)

lemma apply_mem_op_limit [simp]:
  "short_term_limit (apply_mem_op fmt op m) = short_term_limit m"
  "importance_threshold (apply_mem_op fmt op m) = importance_threshold m"
  by (cases op; simp add: add_interaction_def summarize_long_term_def save_def Let_def)+

lemma short_term_summarize [simp]:
  "short_term (summarize_long_term now fmt k m) = short_term m"
  by (simp add: summarize_long_term_def save_def Let_def)

lemma short_term_add:
  "short_term (add_interaction now u a i e p m) =
     (let st1 = short_term m @ [\<lparr>timestamp = now, user_input = u, assistant_response = a,
                  intent = i, emotion = e, importance = p, summary = None\<rparr>]
      in if int (length st1) > short_term_limit m then tl st1 else st1)"
  by (simp add: add_interaction_def save_def Let_def)

lemma added_items_Cons: "added_items (op # ops) = added_items [op] @ added_items ops"
  by (cases op) simp_all

lemma short_term_window:
  assumes "0 \<le> short_term_limit m" and "int (length (short_term m)) \<le> short_term_limit m"
  shows "short_term (run_mem_ops fmt ops m) =
           drop (length (short_term m @ added_items ops) - nat (short_term_limit m))
                (short_term m @ added_items ops)"
  using assms
proof (induction ops arbitrary: m)
  case Nil
  then show ?case by (simp add: run_mem_ops_def)
next
  case (Cons op ops)
  let ?m1 = "apply_mem_op fmt op m"
  let ?N = "nat (short_term_limit m)"
  have run: "run_mem_ops fmt (op # ops) m = run_mem_ops fmt ops ?m1"
    by (simp add: run_mem_ops_def)
  show ?case
  proof (cases op)
    case (Summarize now k)
    then have st: "short_term ?m1 = short_term m"
      by simp
    with Cons.prems have "short_term (run_mem_ops fmt ops ?m1) =
        drop (length (short_term ?m1 @ added_items ops) - nat (short_term_limit ?m1))
             (short_term ?m1 @ added_items ops)"
      by (intro Cons.IH) simp_all
    with st Summarize run show ?thesis by simp
  next
    case (Add now u a i e p)
    define item where "item = \<lparr>timestamp = now, user_input = u, assistant_response = a,
      intent = i, emotion = e, importance = p, summary = None\<rparr>"
    have ai: "added_items (op # ops) = item # added_items ops"
      by (simp add: Add item_def)
    show ?thesis
    proof (cases "int (length (short_term m)) + 1 > short_term_limit m")
      case True
      with Cons.prems have len: "length (short_term m) = ?N" by linarith
      from True have st: "short_term ?m1 = tl (short_term m @ [item])"
        by (simp add: short_term_add Add item_def Let_def)
      then have len1: "length (short_term ?m1) = ?N" using len by simp
      have "short_term (run_mem_ops fmt ops ?m1) =
        drop (length (short_term ?m1 @ added_items ops) - nat (short_term_limit ?m1))
             (short_term ?m1 @ added_items ops)"
        using Cons.prems len1 by (intro Cons.IH) simp_all
      also have "\<dots> = drop (length (added_items ops)) (tl (short_term m @ [item]) @ added_items ops)"
        using st len1 by simp
      also have "tl (short_term m @ [item]) @ added_items ops
                   = drop 1 (short_term m @ item # added_items ops)"
        by (cases "short_term m") simp_all
      also have "drop (length (added_items ops)) (drop 1 (short_term m @ item # added_items ops))
                   = drop (length (short_term m @ added_items (op # ops)) - ?N)
                       (short_term m @ added_items (op # ops))"
      proof -
        have "length (short_term m @ added_items (op # ops)) - ?N = length (added_items ops) + 1"
          using len by (simp add: ai)
        then show ?thesis
          by (simp only: drop_drop ai)
      qed
      finally show ?thesis using run by simp
    next
      case False
      then have st: "short_term ?m1 = short_term m @ [item]"
        by (simp add: short_term_add Add item_def Let_def)
      have "short_term (run_mem_ops fmt ops ?m1) =
        drop (length (short_term ?m1 @ added_items ops) - nat (short_term_limit ?m1))
             (short_term ?m1 @ added_items ops)"
        using Cons.prems False st by (intro Cons.IH) simp_all
      then show ?thesis using run st ai by simp
    qed
  qed
qed

lemma long_term_step:
  "x \<in> set (long_term (apply_mem_op fmt op m)) \<Longrightarrow>
     x \<in> set (long_term m) \<or> is_summary_item x \<or>
     (x \<in> set (added_items [op]) \<and> importance x \<ge> importance_threshold m)"
  by (cases op)
     (auto simp: add_interaction_def summarize_long_term_def save_def Let_def is_summary_item_def
           split: if_splits)

lemma long_term_admission:
  "x \<in> set (long_term (run_mem_ops fmt ops m)) \<Longrightarrow>
     x \<in> set (long_term m) \<or> is_summary_item x \<or>
     (x \<in> set (added_items ops) \<and> importance x \<ge> importance_threshold m)"
proof (induction ops arbitrary: m)
  case Nil
  then show ?case by (simp add: run_mem_ops_def)
next
  case (Cons op ops)
  let ?m1 = "apply_mem_op fmt op m"
  from Cons.prems have "x \<in> set (long_term (run_mem_ops fmt ops ?m1))"
    by (simp add: run_mem_ops_def)
  from Cons.IH [OF this]
  have "x \<in> set (long_term ?m1) \<or> is_summary_item x \<or>
        (x \<in> set (added_items ops) \<and> importance x \<ge> importance_threshold m)"
    by simp
  moreover have "set (added_items (op # ops)) = set (added_items [op]) \<union> set (added_items ops)"
    using added_items_Cons [of op ops] by simp
  ultimately show ?case
    using long_term_step [of x fmt op m] by auto
qed

text \<open>
  C4, as the code has it. On a store whose short-term list holds at most \<open>N\<close> items
  (with \<open>N \<ge> 0\<close>: a fresh store, or one loaded from a file with at most \<open>N\<close> short-term
  items), after any sequence of \<open>add_interaction\<close> and \<open>summarize_long_term\<close> calls the
  short-term list holds at most \<open>N\<close> items, namely the last \<open>min(count, N)\<close> of the items it
  held followed by the items added, in insertion order; and every item of the long-term
  list was there at the start, or is a consolidation summary, or was added with an
  importance of at least the threshold. Loading puts the stored lists in place as they
  are.
\<close>

theorem memory_window_and_admission:
  assumes "0 \<le> short_term_limit m"
    and "int (length (short_term m)) \<le> short_term_limit m"
  shows "int (length (short_term (run_mem_ops fmt ops m))) \<le> short_term_limit m \<and>
         length (short_term (run_mem_ops fmt ops m)) =
           min (length (short_term m) + length (added_items ops)) (nat (short_term_limit m)) \<and>
         short_term (run_mem_ops fmt ops m) =
           drop (length (short_term m @ added_items ops) - nat (short_term_limit m))
                (short_term m @ added_items ops) \<and>
         (\<forall>x \<in> set (long_term (run_mem_ops fmt ops m)).
            x \<in> set (long_term m) \<or> is_summary_item x \<or>
            (x \<in> set (added_items ops) \<and> importance x \<ge> importance_threshold m)) \<and>
         short_term (MemoryCore_init (Json (Items stored_short) (Items stored_long)) limit threshold)
           = stored_short \<and>
         long_term (MemoryCore_init (Json (Items stored_short) (Items stored_long)) limit threshold)
           = stored_long"
proof -
  have w: "short_term (run_mem_ops fmt ops m) =
           drop (length (short_term m @ added_items ops) - nat (short_term_limit m))
                (short_term m @ added_items ops)"
    using assms by (rule short_term_window)
  then have len: "length (short_term (run_mem_ops fmt ops m)) =
           min (length (short_term m) + length (added_items ops)) (nat (short_term_limit m))"
    by auto
  with assms(1) have "int (length (short_term (run_mem_ops fmt ops m))) \<le> short_term_limit m"
    by linarith
  moreover have
    "short_term (MemoryCore_init (Json (Items stored_short) (Items stored_long)) limit threshold)
       = stored_short"
    "long_term (MemoryCore_init (Json (Items stored_short) (Items stored_long)) limit threshold)
       = stored_long"
    by (simp_all add: MemoryCore_init_def load_def Let_def)
  ultimately show ?thesis
    using w len long_term_admission [of _ fmt ops m] by blast
qed

theorem memory_window_and_admission_witness:
  "0 \<le> short_term_limit fresh_store \<and>
   int (length (short_term fresh_store)) \<le> short_term_limit fresh_store \<and>
   length (short_term (run_mem_ops fmt0 eleven_adds fresh_store)) = 10 \<and>
   hd (short_term (run_mem_ops fmt0 eleven_adds fresh_store)) = item_n 2 0.59 \<and>
   long_term (run_mem_ops fmt0 eleven_adds fresh_store) = []"
proof -
  have a: "0 \<le> short_term_limit fresh_store"
    and b: "int (length (short_term fresh_store)) \<le> short_term_limit fresh_store"
    by (simp_all add: fresh_store_def MemoryCore_init_def load_def)
  note t = memory_window_and_admission [OF a b, of fmt0 eleven_adds]
  from t have "short_term (run_mem_ops fmt0 eleven_adds fresh_store) =
      drop (length (short_term fresh_store @ added_items eleven_adds) - nat (short_term_limit fresh_store))
           (short_term fresh_store @ added_items eleven_adds)" by blast
  then have st: "short_term (run_mem_ops fmt0 eleven_adds fresh_store) =
      map (\<lambda>k. item_n k 0.59) [2, 3, 4, 5, 6, 7, 8, 9, 10, 11]"
    by (simp add: eleven_adds_def add_n_def item_n_def fresh_store_def MemoryCore_init_def load_def)
  have "long_term (run_mem_ops fmt0 eleven_adds fresh_store) = []"
    by (simp add: run_mem_ops_def eleven_adds_def add_n_def fresh_store_def MemoryCore_init_def
        load_def add_interaction_def save_def Let_def)
  with st a b show ?thesis by simp
qed

theorem load_exceeds_limit_counterexample:
  "\<not> int (length (short_term
        (add_interaction 4 ''q'' ''r'' ''unknown'' [] 0
           (MemoryCore_init (Json (Items [item_n 1 0, item_n 2 0, item_n 3 0]) (Items [])) 2 0.6))))
      \<le> short_term_limit (MemoryCore_init (Json (Items [item_n 1 0, item_n 2 0, item_n 3 0]) (Items [])) 2 0.6)"
  by (simp add: MemoryCore_init_def load_def add_interaction_def save_def Let_def)

section \<open>The memory core: consolidation\<close>

lemma summarize_long_term_positive:
  assumes "0 < k"
  shows "summarize_long_term now fmt k m =
     (if int (length (long_term m)) \<le> k then m
      else save (m\<lparr>long_term :=
        [\<lparr>timestamp = now, user_input = ''(summary)'', assistant_response = ''(summary)'',
          intent = ''memory_summary'', emotion = get_emotional_trend m, importance = 1,
          summary = Some (join '' | ''
            (map (\<lambda>i. intent i @ '' ('' @ fmt (importance i) @ '')'')
                 (drop (length (long_term m) - nat k) (long_term m))))\<rparr>]\<rparr>))"
proof -
  have "slice_from (- k) (long_term m) = drop (length (long_term m) - nat k) (long_term m)"
    if "\<not> int (length (long_term m)) \<le> k"
  proof -
    from assms that have "nat (max 0 (int (length (long_term m)) + - k)) = length (long_term m) - nat k"
      by linarith
    with assms show ?thesis by (simp add: slice_from_def)
  qed
  then show ?thesis
    by (simp add: summarize_long_term_def Let_def)
qed

text \<open>
  C8 at \<open>max_items = 0\<close>. With two long-term items the call is not a no-op, and
  \<^verbatim>\<open>long_term[-0:]\<close> is the whole list: the summary is built from both items, not from
  the most recent zero of them.
\<close>

theorem summarize_zero_takes_all_entries:
  "int (length (long_term two_long_term)) > 0 \<and>
   slice_from (- 0) (long_term two_long_term) = [item_n 1 0.7, item_n 2 0.9] \<and>
   map summary (long_term (summarize_long_term now fmt 0 two_long_term)) =
     [Some (''unknown ('' @ fmt 0.7 @ '') | unknown ('' @ fmt 0.9 @ '')'')]"
  by (simp add: summarize_long_term_def two_long_term_def fresh_store_def MemoryCore_init_def
      load_def slice_from_def item_n_def save_def Let_def)

section \<open>The affect vectors\<close>

lemma map_of_update: "map_of (AList.update k v d) k' = (if k' = k then Some v else map_of d k')"
  by (simp add: update_conv')

lemma axis_update_same: "0 \<le> v \<Longrightarrow> v \<le> 1 \<Longrightarrow> axis_in_unit (AList.update k v d) k"
  by (simp add: axis_in_unit_def map_of_update)

lemma axis_update_other: "k' \<noteq> k \<Longrightarrow> axis_in_unit (AList.update k v d) k' = axis_in_unit d k'"
  by (simp add: axis_in_unit_def map_of_update)

lemma axis_update:
  "axis_in_unit (AList.update k v d) k' = (if k' = k then 0 \<le> v \<and> v \<le> 1 else axis_in_unit d k')"
  by (simp add: axis_in_unit_def map_of_update)

lemma adjust_emotions_axes:
  assumes "map_of d ''happiness'' = Some h" and "map_of d ''sadness'' = Some sd"
    and "map_of d ''curiosity'' = Some c" and "map_of d ''affinity'' = Some af"
  shows "\<exists>d'. adjust_emotions delta d = Inr d' \<and>
           map_of d' ''happiness'' = Some (max 0 (min 1 (h + delta * 0.1))) \<and>
           map_of d' ''sadness'' = Some (max 0 (min 1 (sd - delta * 0.05))) \<and>
           map_of d' ''curiosity'' = Some (max 0 (min 1 (c + delta * 0.02))) \<and>
           map_of d' ''affinity'' = Some (max 0 (min 1 (af + delta * 0.01))) \<and>
           (\<forall>k. k \<notin> set [''happiness'', ''sadness'', ''curiosity'', ''affinity'']
               \<longrightarrow> map_of d' k = map_of d k)"
  using assms by (simp add: adjust_emotions_def getitem_def Let_def map_of_update)

lemma adjust_emotions_in_unit:
  assumes "axes_in_unit d"
  shows "\<exists>d'. adjust_emotions delta d = Inr d' \<and> axes_in_unit d'"
proof -
  from assms obtain h sd c af where
    m: "map_of d ''happiness'' = Some h" "map_of d ''sadness'' = Some sd"
       "map_of d ''curiosity'' = Some c" "map_of d ''affinity'' = Some af"
    by (auto simp: axes_in_unit_def axis_in_unit_def split: option.splits)
  from adjust_emotions_axes [OF m, of delta] obtain d' where
    "adjust_emotions delta d = Inr d'"
    "map_of d' ''happiness'' = Some (max 0 (min 1 (h + delta * 0.1)))"
    "map_of d' ''sadness'' = Some (max 0 (min 1 (sd - delta * 0.05)))"
    "map_of d' ''curiosity'' = Some (max 0 (min 1 (c + delta * 0.02)))"
    "map_of d' ''affinity'' = Some (max 0 (min 1 (af + delta * 0.01)))"
    by blast
  then show ?thesis
    by (simp add: axes_in_unit_def axis_in_unit_def)
qed

lemma apply_reward_in_unit:
  assumes "axes_in_unit es"
  shows "axes_in_unit (snd (apply_reward points why (sc, es)))"
proof -
  from assms obtain h sd where
    m: "map_of es ''happiness'' = Some h" "0 \<le> h" "map_of es ''sadness'' = Some sd" "0 \<le> sd"
    by (auto simp: axes_in_unit_def axis_in_unit_def split: option.splits)
  then have "0 \<le> min 1 (dict_get es ''happiness'' 0.5 + 0.05)"
    and "0 \<le> min 1 (dict_get es ''sadness'' 0.2 + 0.05)"
    by (simp_all add: dict_get_def)
  with assms show ?thesis
    by (simp add: apply_reward_def Let_def axes_in_unit_def axis_update)
qed

lemma apply_affect_op_in_unit:
  assumes "axes_in_unit (emotion_engine s)" and "axes_in_unit (config_emotion_state s)"
  shows "\<exists>s'. apply_affect_op op s = Inr s' \<and>
           axes_in_unit (emotion_engine s') \<and> axes_in_unit (config_emotion_state s')"
proof (cases op)
  case (Adjust delta)
  with adjust_emotions_in_unit [OF assms(1), of delta] assms(2) show ?thesis by auto
next
  case (Reward points why)
  with apply_reward_in_unit [OF assms(2), of points why "reward_score s"] assms(1)
  show ?thesis by (simp add: reward_def Let_def)
qed

lemma run_affect_ops_in_unit:
  assumes "axes_in_unit (emotion_engine s)" and "axes_in_unit (config_emotion_state s)"
  shows "\<exists>s'. run_affect_ops ops s = Inr s' \<and>
           axes_in_unit (emotion_engine s') \<and> axes_in_unit (config_emotion_state s')"
  using assms
proof (induction ops arbitrary: s)
  case Nil
  then show ?case by simp
next
  case (Cons op ops)
  from apply_affect_op_in_unit [OF Cons.prems, of op] obtain s1 where
    s1: "apply_affect_op op s = Inr s1" "axes_in_unit (emotion_engine s1)"
        "axes_in_unit (config_emotion_state s1)" by blast
  from Cons.IH [OF s1(2,3)] s1(1) show ?case by simp
qed

text \<open>
  C9. Starting from vectors whose four axes lie in \<open>[0, 1]\<close>, every finite sequence of
  \<open>adjust_emotions\<close> and \<open>apply_reward\<close> calls, with any deltas and points, returns and
  leaves all four axes of both vectors in \<open>[0, 1]\<close>; and \<open>adjust_emotions\<close> moves happiness
  by \<open>delta * 0.1\<close>, sadness by \<open>- delta * 0.05\<close>, curiosity by \<open>delta * 0.02\<close> and affinity
  by \<open>delta * 0.01\<close>, each clamped.
\<close>

theorem affect_axes_stay_in_unit:
  assumes "axes_in_unit (emotion_engine s)" and "axes_in_unit (config_emotion_state s)"
  shows "(\<exists>s'. run_affect_ops ops s = Inr s' \<and>
            axes_in_unit (emotion_engine s') \<and> axes_in_unit (config_emotion_state s')) \<and>
         (\<exists>h sd c af d'.
            map_of (emotion_engine s) ''happiness'' = Some h \<and>
            map_of (emotion_engine s) ''sadness'' = Some sd \<and>
            map_of (emotion_engine s) ''curiosity'' = Some c \<and>
            map_of (emotion_engine s) ''affinity'' = Some af \<and>
            adjust_emotions delta (emotion_engine s) = Inr d' \<and>
            map_of d' ''happiness'' = Some (max 0 (min 1 (h + delta * 0.1))) \<and>
            map_of d' ''sadness'' = Some (max 0 (min 1 (sd - delta * 0.05))) \<and>
            map_of d' ''curiosity'' = Some (max 0 (min 1 (c + delta * 0.02))) \<and>
            map_of d' ''affinity'' = Some (max 0 (min 1 (af + delta * 0.01))))"
proof -
  from assms(1) obtain h sd c af where
    m: "map_of (emotion_engine s) ''happiness'' = Some h"
       "map_of (emotion_engine s) ''sadness'' = Some sd"
       "map_of (emotion_engine s) ''curiosity'' = Some c"
       "map_of (emotion_engine s) ''affinity'' = Some af"
    by (auto simp: axes_in_unit_def axis_in_unit_def split: option.splits)
  from adjust_emotions_axes [OF m, of delta] obtain d' where
    "adjust_emotions delta (emotion_engine s) = Inr d'"
    "map_of d' ''happiness'' = Some (max 0 (min 1 (h + delta * 0.1)))"
    "map_of d' ''sadness'' = Some (max 0 (min 1 (sd - delta * 0.05)))"
    "map_of d' ''curiosity'' = Some (max 0 (min 1 (c + delta * 0.02)))"
    "map_of d' ''affinity'' = Some (max 0 (min 1 (af + delta * 0.01)))"
    by blast
  with m run_affect_ops_in_unit [OF assms, of ops] show ?thesis by blast
qed

theorem affect_axes_stay_in_unit_witness:
  "axes_in_unit (emotion_engine (MikaAssistant_init rules_allow NoFile)) \<and>
   axes_in_unit (config_emotion_state (MikaAssistant_init rules_allow NoFile)) \<and>
   (\<exists>s'. run_affect_ops sample_ops (MikaAssistant_init rules_allow NoFile) = Inr s' \<and>
      axes_in_unit (emotion_engine s') \<and> axes_in_unit (config_emotion_state s') \<and>
      emotion_engine s' = [(''happiness'', 0), (''sadness'', 1), (''curiosity'', 0), (''affinity'', 0)] \<and>
      config_emotion_state s' =
        [(''happiness'', 0.55), (''sadness'', 0.25), (''curiosity'', 0.3), (''affinity'', 0)])"
proof -
  let ?s = "MikaAssistant_init rules_allow NoFile"
  have a: "axes_in_unit (emotion_engine ?s)" and b: "axes_in_unit (config_emotion_state ?s)"
    by (simp_all add: MikaAssistant_init_def EmotionState_init_def axes_in_unit_def axis_in_unit_def)
  from affect_axes_stay_in_unit [OF a b, of sample_ops 0] obtain s' where
    s': "run_affect_ops sample_ops ?s = Inr s'" "axes_in_unit (emotion_engine s')"
        "axes_in_unit (config_emotion_state s')" by blast
  have "run_affect_ops sample_ops ?s =
      Inr (?s\<lparr>emotion_engine := [(''happiness'', 0), (''sadness'', 1), (''curiosity'', 0), (''affinity'', 0)],
              config_emotion_state := [(''happiness'', 0.55), (''sadness'', 0.25), (''curiosity'', 0.3), (''affinity'', 0)],
              reward_score := 0\<rparr>)"
    by (simp add: sample_ops_def MikaAssistant_init_def EmotionState_init_def adjust_emotions_def
        getitem_def reward_def apply_reward_def dict_get_def Let_def)
  with s' a b show ?thesis by auto
qed

text \<open>
  C5, as the code has it. \<open>apply_reward\<close> adds the points to the reward score and changes
  the dict \<^verbatim>\<open>config.state.emotion_state\<close>: for positive points its happiness becomes
  \<open>min(1, happiness + 0.05)\<close>, for negative points its sadness becomes
  \<open>min(1, sadness + 0.05)\<close>, and no other key changes. The dict of the \<open>EmotionState\<close> engine
  that the assistant creates, the one importance scoring reads, is not touched.
\<close>

theorem reward_touches_config_state_only:
  "reward_score (reward points why s) = reward_score s + points \<and>
   emotion_engine (reward points why s) = emotion_engine s \<and>
   (points > 0 \<longrightarrow>
      map_of (config_emotion_state (reward points why s)) ''happiness'' =
        Some (min 1 (dict_get (config_emotion_state s) ''happiness'' 0.5 + 0.05)) \<and>
      (\<forall>k. k \<noteq> ''happiness'' \<longrightarrow>
         map_of (config_emotion_state (reward points why s)) k = map_of (config_emotion_state s) k)) \<and>
   (points < 0 \<longrightarrow>
      map_of (config_emotion_state (reward points why s)) ''sadness'' =
        Some (min 1 (dict_get (config_emotion_state s) ''sadness'' 0.2 + 0.05)) \<and>
      (\<forall>k. k \<noteq> ''sadness'' \<longrightarrow>
         map_of (config_emotion_state (reward points why s)) k = map_of (config_emotion_state s) k)) \<and>
   (points = 0 \<longrightarrow> config_emotion_state (reward points why s) = config_emotion_state s)"
  by (simp add: reward_def apply_reward_def Let_def map_of_update)

theorem reward_touches_config_state_only_witness:
  "(1::real) > 0 \<and>
   reward_score (reward 1 ''command_success'' (MikaAssistant_init rules_allow NoFile)) = 1 \<and>
   map_of (config_emotion_state (reward 1 ''command_success'' (MikaAssistant_init rules_allow NoFile)))
     ''happiness'' = Some 0.55 \<and>
   map_of (emotion_engine (reward 1 ''command_success'' (MikaAssistant_init rules_allow NoFile)))
     ''happiness'' = Some 0.5 \<and>
   (- 1::real) < 0 \<and>
   map_of (config_emotion_state (reward (- 1) ''command_failure'' (MikaAssistant_init rules_allow NoFile)))
     ''sadness'' = Some 0.25"
  using reward_touches_config_state_only [of 1 "''command_success''" "MikaAssistant_init rules_allow NoFile"]
    reward_touches_config_state_only [of "- 1" "''command_failure''" "MikaAssistant_init rules_allow NoFile"]
  by (simp add: MikaAssistant_init_def EmotionState_init_def dict_get_def)

theorem reward_engine_vector_counterexample:
  "map_of (emotion_engine (MikaAssistant_init rules_allow NoFile)) ''happiness'' = Some 0.5 \<and>
   map_of (emotion_engine (reward 1 ''command_success'' (MikaAssistant_init rules_allow NoFile)))
     ''happiness'' \<noteq> Some (min 1 (0.5 + 0.05))"
  by (simp add: reward_def apply_reward_def Let_def MikaAssistant_init_def EmotionState_init_def)

section \<open>The turn\<close>

lemma estimate_importance_closed:
  "estimate_importance i sent emo =
     min 1 (\<bar>dict_get emo ''happiness'' 0.5 - 0.5\<bar> + \<bar>dict_get emo ''sadness'' 0.2\<bar>
            + \<bar>dict_get emo ''curiosity'' 0.3\<bar>
            + (if i = ''gratitude'' \<or> i = ''emotion_check'' \<or> i = ''conversation'' then 0.2 else 0)
            + \<bar>dict_get sent ''compound'' 0\<bar> * 0.3)"
  by (cases sent) (auto simp: estimate_importance_def Let_def dict_get_def min_def)

lemma estimate_importance_range: "0 \<le> estimate_importance i sent emo \<and> estimate_importance i sent emo \<le> 1"
  by (simp add: estimate_importance_closed)

lemma route_memory:
  "route ext now_iso txt md s = Inr (r, s2) \<Longrightarrow> memory s2 = memory s"
  by (auto simp: route_def reward_def Let_def split: option.splits sum.splits prod.splits if_splits)

lemma short_term_add_last:
  "0 < short_term_limit m \<Longrightarrow>
   last (short_term (add_interaction now u a i e p m)) =
     \<lparr>timestamp = now, user_input = u, assistant_response = a, intent = i, emotion = e,
      importance = p, summary = None\<rparr>"
  by (cases "short_term m") (auto simp: add_interaction_def save_def Let_def last_tl)

lemma handle_input_success:
  assumes "handle_input ext now_iso now txt s = Inr s'"
  shows "\<exists>d g r s2.
     allows now_iso (governor s) ''cognition.reason'' = Inr (d, g) \<and>
     route ext now_iso txt (snd (analyze ext txt))
       (s\<lparr>governor := g, trace := trace s @ [Analyzed txt]\<rparr>) = Inr (r, s2) \<and>
     s' = speak (evaluate_response (core_traits s2) txt r)
            (s2\<lparr>memory := add_interaction now txt (evaluate_response (core_traits s2) txt r)
                 (fst (analyze ext txt)) (emotion_engine s)
                 (estimate_importance (fst (analyze ext txt))
                    (case sentiment (snd (analyze ext txt)) of None \<Rightarrow> [] | Some sd \<Rightarrow> sd)
                    (emotion_engine s))
                 (memory s2)\<rparr>)"
proof (cases "allows now_iso (governor s) ''cognition.reason''")
  case (Inl e)
  with assms show ?thesis by (simp add: handle_input_def)
next
  case (Inr dg)
  obtain d g where dg: "dg = (d, g)" by (cases dg)
  let ?s1 = "s\<lparr>governor := g, trace := trace s @ [Analyzed txt]\<rparr>"
  show ?thesis
  proof (cases "route ext now_iso txt (snd (analyze ext txt)) ?s1")
    case (Inl e)
    with assms Inr dg show ?thesis
      by (simp add: handle_input_def decision_truthy_def Let_def)
  next
    case rr: (Inr rs)
    obtain r s2 where rs: "rs = (r, s2)" by (cases rs)
    from assms Inr dg rr rs
    have "s' = speak (evaluate_response (core_traits s2) txt r)
            (s2\<lparr>memory := add_interaction now txt (evaluate_response (core_traits s2) txt r)
                 (fst (analyze ext txt)) (emotion_engine s)
                 (estimate_importance (fst (analyze ext txt))
                    (case sentiment (snd (analyze ext txt)) of None \<Rightarrow> [] | Some sd \<Rightarrow> sd)
                    (emotion_engine s))
                 (memory s2)\<rparr>)"
      by (simp add: handle_input_def decision_truthy_def Let_def emotional_summary_def)
    with Inr dg rr rs show ?thesis by simp
  qed
qed

lemma dict_get_empty: "dict_get [] k dflt = dflt"
  by (simp add: dict_get_def)

text \<open>
  C6. The item a turn writes to memory carries the emotion dict as it was when the turn
  began (the snapshot taken right after analysis, before any handler ran), and its
  importance is \<open>|happiness - 0.5| + |sadness| + |curiosity|\<close> over that snapshot, plus
  \<open>0.2\<close> when the intent is gratitude, emotion_check or conversation, plus
  \<open>|compound| * 0.3\<close> when the metadata has a sentiment, the sum cut off at \<open>1\<close>; it lies
  in \<open>[0, 1]\<close>.
\<close>

theorem importance_of_turn:
  assumes "handle_input ext now_iso now txt s = Inr s'"
    and "0 < short_term_limit (memory s)"
  shows "emotion (last (short_term (memory s'))) = emotion_engine s \<and>
         importance (last (short_term (memory s'))) =
           min 1 (\<bar>dict_get (emotion_engine s) ''happiness'' 0.5 - 0.5\<bar>
                  + \<bar>dict_get (emotion_engine s) ''sadness'' 0.2\<bar>
                  + \<bar>dict_get (emotion_engine s) ''curiosity'' 0.3\<bar>
                  + (if fst (analyze ext txt) = ''gratitude'' \<or> fst (analyze ext txt) = ''emotion_check''
                        \<or> fst (analyze ext txt) = ''conversation'' then 0.2 else 0)
                  + (case sentiment (snd (analyze ext txt)) of
                       None \<Rightarrow> 0
                     | Some sd \<Rightarrow> \<bar>dict_get sd ''compound'' 0\<bar> * 0.3)) \<and>
         0 \<le> importance (last (short_term (memory s'))) \<and>
         importance (last (short_term (memory s'))) \<le> 1"
proof -
  let ?a = "analyze ext txt"
  let ?sent = "case sentiment (snd ?a) of None \<Rightarrow> [] | Some sd \<Rightarrow> sd"
  let ?imp = "estimate_importance (fst ?a) ?sent (emotion_engine s)"
  from handle_input_success [OF assms(1)] obtain d g r s2 where
    ro: "route ext now_iso txt (snd ?a) (s\<lparr>governor := g, trace := trace s @ [Analyzed txt]\<rparr>) = Inr (r, s2)"
    and s': "s' = speak (evaluate_response (core_traits s2) txt r)
            (s2\<lparr>memory := add_interaction now txt (evaluate_response (core_traits s2) txt r)
                 (fst ?a) (emotion_engine s) ?imp (memory s2)\<rparr>)"
    by blast
  from route_memory [OF ro] have mem: "memory s2 = memory s" by simp
  have "memory s' = add_interaction now txt (evaluate_response (core_traits s2) txt r)
                 (fst ?a) (emotion_engine s) ?imp (memory s)"
    by (simp add: s' speak_def mem)
  with assms(2) have lastitem: "last (short_term (memory s')) =
      \<lparr>timestamp = now, user_input = txt,
       assistant_response = evaluate_response (core_traits s2) txt r, intent = fst ?a,
       emotion = emotion_engine s, importance = ?imp, summary = None\<rparr>"
    by (simp only: short_term_add_last)
  have sent: "\<bar>dict_get ?sent ''compound'' 0\<bar> * 0.3 =
      (case sentiment (snd ?a) of None \<Rightarrow> 0 | Some sd \<Rightarrow> \<bar>dict_get sd ''compound'' 0\<bar> * 0.3)"
    by (cases "sentiment (snd ?a)") (simp_all add: dict_get_empty)
  have e: "emotion (last (short_term (memory s'))) = emotion_engine s"
    and i: "importance (last (short_term (memory s'))) = ?imp"
    by (simp_all only: lastitem MemoryItem.simps)
  have f: "?imp = min 1 (\<bar>dict_get (emotion_engine s) ''happiness'' 0.5 - 0.5\<bar>
                  + \<bar>dict_get (emotion_engine s) ''sadness'' 0.2\<bar>
                  + \<bar>dict_get (emotion_engine s) ''curiosity'' 0.3\<bar>
                  + (if fst ?a = ''gratitude'' \<or> fst ?a = ''emotion_check''
                        \<or> fst ?a = ''conversation'' then 0.2 else 0)
                  + (case sentiment (snd ?a) of
                       None \<Rightarrow> 0
                     | Some sd \<Rightarrow> \<bar>dict_get sd ''compound'' 0\<bar> * 0.3))"
    by (simp only: estimate_importance_closed sent)
  from estimate_importance_range [of "fst ?a" ?sent "emotion_engine s"]
  have "0 \<le> ?imp" and "?imp \<le> 1" by blast+
  with e i f show ?thesis by (simp only:)
qed

lemma lower_thank_you: "lower ''thank you'' = ''thank you''"
  by (simp add: lower_def lower_char_def)

theorem importance_of_turn_witness:
  "0 < short_term_limit (memory (MikaAssistant_init rules_allow NoFile)) \<and>
   (\<exists>s'. handle_input ext_thanks ''t'' 1 ''thank you'' (MikaAssistant_init rules_allow NoFile) = Inr s' \<and>
      map_of (emotion_engine s') ''happiness'' = Some 0.7 \<and>
      emotion (last (short_term (memory s'))) = EmotionState_init \<and>
      importance (last (short_term (memory s'))) = 0.85)"
proof -
  let ?s = "MikaAssistant_init rules_allow NoFile"
  have lim: "0 < short_term_limit (memory ?s)"
    by (simp add: MikaAssistant_init_def MemoryCore_init_def load_def)
  have "\<exists>s'. handle_input ext_thanks ''t'' 1 ''thank you'' ?s = Inr s' \<and>
      map_of (emotion_engine s') ''happiness'' = Some 0.7"
    by (simp add: handle_input_def route_def allows_rules_allow decision_truthy_def
        MikaAssistant_init_def lower_thank_you default_commands_def ext_thanks_def
        adjust_emotions_def getitem_def EmotionState_init_def reward_def apply_reward_def
        speak_def audit_def Let_def)
  then obtain s' where
    h: "handle_input ext_thanks ''t'' 1 ''thank you'' ?s = Inr s'"
    and e: "map_of (emotion_engine s') ''happiness'' = Some 0.7" by blast
  from importance_of_turn [OF h lim]
  have "emotion (last (short_term (memory s'))) = EmotionState_init"
    and "importance (last (short_term (memory s'))) = 0.85"
    by (simp_all add: MikaAssistant_init_def EmotionState_init_def ext_thanks_def dict_get_def)
  with lim h e show ?thesis by blast
qed

text \<open>
  C1 on a governor file that does not grant \<open>cognition.reason\<close>. The decision says
  \<open>allowed = False\<close>, yet the turn goes on: the analyzer is called, the text is routed
  to the generator, the fallback reply is spoken instead of the refusal, and the
  interaction is written to memory.
\<close>

theorem denied_reasoning_still_runs_turn:
  "map_sum id fst (allows ''t'' (governor (MikaAssistant_init rules_deny NoFile)) ''cognition.reason'') =
     Inr \<lparr>allowed = False, reason = ''forbidden'', requires_approval = False\<rparr> \<and>
   map_sum id trace (handle_input ext_plain ''t'' 1 ''hello'' (MikaAssistant_init rules_deny NoFile)) =
     Inr [Analyzed ''hello'', Generated ''hello'',
          Spoke (''I'' @ rsquo @ ''m listening. Tell me more.'')] \<and>
   map_sum id (\<lambda>s. map user_input (short_term (memory s)))
       (handle_input ext_plain ''t'' 1 ''hello'' (MikaAssistant_init rules_deny NoFile)) =
     Inr [''hello'']"
  by (simp add: handle_input_def route_def allows_def lookup_permission_def
      path_requires_approval_def decision_truthy_def MikaAssistant_init_def rules_deny_def
      ext_plain_def default_commands_def dict_get_def endswith_def lower_def lower_char_def
      llm_response_def evaluate_response_def speak_def audit_def MemoryCore_init_def load_def
      add_interaction_def save_def emotional_summary_def Let_def)

text \<open>
  C2 on the input \<open>set timer 5 minutes\<close>. The text is not a key of the command table, so
  with the tool permission granted the turn takes the generative branch: the reply is the
  fallback, no handler runs and the reward score stays 0. With the permission denied the
  reply is the same fallback, not the refusal.
\<close>

theorem set_timer_text_not_routed:
  "map_of default_commands (lower ''set timer 5 minutes'') = None \<and>
   map_sum id fst (allows ''t'' (governor (MikaAssistant_init rules_allow NoFile))
       ''tools.execute_code_in_sandbox'') =
     Inr \<lparr>allowed = True, reason = ''allowed'', requires_approval = False\<rparr> \<and>
   map_sum id (\<lambda>s. (trace s, reward_score s))
       (handle_input ext_plain ''t'' 1 ''set timer 5 minutes'' (MikaAssistant_init rules_allow NoFile)) =
     Inr ([Analyzed ''set timer 5 minutes'', Generated ''set timer 5 minutes'',
           Spoke (''I'' @ rsquo @ ''m listening. Tell me more.'')], 0) \<and>
   map_sum id fst (allows ''t'' (governor (MikaAssistant_init rules_no_tools NoFile))
       ''tools.execute_code_in_sandbox'') =
     Inr \<lparr>allowed = False, reason = ''forbidden'', requires_approval = False\<rparr> \<and>
   map_sum id (\<lambda>s. (trace s, reward_score s))
       (handle_input ext_plain ''t'' 1 ''set timer 5 minutes'' (MikaAssistant_init rules_no_tools NoFile)) =
     Inr ([Analyzed ''set timer 5 minutes'', Generated ''set timer 5 minutes'',
           Spoke (''I'' @ rsquo @ ''m listening. Tell me more.'')], 0)"
  by (simp add: handle_input_def route_def allows_def lookup_permission_def
      path_requires_approval_def decision_truthy_def MikaAssistant_init_def rules_allow_def
      rules_no_tools_def
      ext_plain_def default_commands_def dict_get_def endswith_def lower_def lower_char_def
      llm_response_def evaluate_response_def speak_def audit_def MemoryCore_init_def load_def
      add_interaction_def save_def emotional_summary_def Let_def)

text \<open>
  On the exact key \<open>set timer\<close> the handler runs and the reward is applied although the
  governor denies the tool permission.
\<close>

lemma exact_key_runs_despite_denial:
  "map_sum id (\<lambda>s. (trace s, reward_score s))
       (handle_input ext_plain ''t'' 1 ''set timer'' (MikaAssistant_init rules_no_tools NoFile)) =
     Inr ([Analyzed ''set timer'', CommandRun ''mika_trial.commands.CommandProcessor.set_timer'',
           Spoke ''Timer set for 5 minutes!''], 1)"
  by (simp add: handle_input_def route_def allows_def lookup_permission_def
      path_requires_approval_def decision_truthy_def MikaAssistant_init_def
      rules_no_tools_def reward_def apply_reward_def
      ext_plain_def default_commands_def dict_get_def endswith_def lower_def lower_char_def
      llm_response_def evaluate_response_def speak_def audit_def MemoryCore_init_def load_def
      add_interaction_def save_def emotional_summary_def Let_def)

end
